theory Spec2Isabelle
  imports Complex_Main
begin

section \<open>The forecast orchestration of arima.py\<close>

text \<open>
  The script \<^verbatim>\<open>arima.py\<close> parses its arguments, fetches the series of an RRD file,
  derives the seasonal offset from the seasonal period and the step, validates it, and
  then fits, predicts, plots and exports one series after the other (lines 75 to 133).
  The embedding below follows those lines. The libraries the script calls (pandas,
  statsmodels, matplotlib) are not part of the script: they are parameters of the model.

  Times are POSIX seconds and durations are their \<^verbatim>\<open>total_seconds()\<close>, both as whole
  numbers: the step of an RRD file is a whole number of seconds, and on whole numbers of
  seconds (every \<^verbatim>\<open>timedelta\<close> is below \<open>2^53\<close> seconds) the floating-point \<^verbatim>\<open>//\<close> and
  \<^verbatim>\<open>%\<close> of Python are exact: they are the floor division and the modulus of the integers,
  with the sign of the divisor, as \<open>div\<close> and \<open>mod\<close> on \<open>int\<close> are.
\<close>

type_synonym timestamp = int
type_synonym timedelta = int

subsection \<open>Errors\<close>

text \<open>
  \<^verbatim>\<open>parser.error(msg)\<close> prints the usage and the message and exits with status 2; the two
  messages of lines 81 and 83 are the two constructors of \<open>parser_message\<close>. The other
  errors are the exceptions that the lines of the script raise themselves, and \<open>FitError\<close>
  stands for whatever \<^verbatim>\<open>ARIMA(...).fit()\<close> raises.
\<close>

datatype parser_message =
    SeasonalPeriodTooShort timedelta "timedelta option"
  | SeasonalPeriodNotMultiple

datatype error =
    ParserError parser_message
  | AttributeError
  | TypeError
  | ZeroDivisionError
  | FitError

definition and_then :: "error + 'a \<Rightarrow> ('a \<Rightarrow> error + 'b) \<Rightarrow> error + 'b" where
  "and_then r f = (case r of Inl e \<Rightarrow> Inl e | Inr x \<Rightarrow> f x)"

subsection \<open>The seasonal offset and its validation (lines 78 to 83)\<close>

text \<open>
  \<^verbatim>\<open>args.seasonal_period\<close> is \<^verbatim>\<open>None\<close> when the option is absent. In a condition Python
  takes its truth value: \<^verbatim>\<open>None\<close> is false, and so is a \<^verbatim>\<open>timedelta\<close> of zero length.
\<close>

fun truthy :: "timedelta option \<Rightarrow> bool" where
  "truthy None = False"
| "truthy (Some d) = (d \<noteq> 0)"

fun total_seconds :: "timedelta option \<Rightarrow> error + int" where
  "total_seconds None = Inl AttributeError"
| "total_seconds (Some d) = Inr d"

definition floordiv :: "int \<Rightarrow> int \<Rightarrow> error + int" where
  "floordiv a b = (if b = 0 then Inl ZeroDivisionError else Inr (a div b))"

definition modulo :: "int \<Rightarrow> int \<Rightarrow> error + int" where
  "modulo a b = (if b = 0 then Inl ZeroDivisionError else Inr (a mod b))"

text \<open>
  Line 78:
  \<^verbatim>\<open>season_offset = int(args.seasonal_period.total_seconds() // step.total_seconds())
                  if args.seasonal_period else 0\<close>
\<close>

definition season_offset :: "timedelta option \<Rightarrow> timedelta \<Rightarrow> error + int" where
  "season_offset seasonal_period step =
     (if truthy seasonal_period
      then and_then (total_seconds seasonal_period) (\<lambda>s. floordiv s step)
      else Inr 0)"

text \<open>
  Lines 80 to 83: the \<^verbatim>\<open>if\<close> tests the truth value of the period and the offset; the
  \<^verbatim>\<open>elif\<close> is reached whenever the \<^verbatim>\<open>if\<close> does not fire, and it reads
  \<^verbatim>\<open>args.seasonal_period.total_seconds()\<close> with no test of the period before it.
\<close>

definition validate :: "timedelta option \<Rightarrow> timedelta \<Rightarrow> int \<Rightarrow> error + unit" where
  "validate seasonal_period step offset =
     (if truthy seasonal_period \<and> offset < 2
      then Inl (ParserError (SeasonalPeriodTooShort step seasonal_period))
      else and_then (total_seconds seasonal_period) (\<lambda>s.
           and_then (modulo s step) (\<lambda>r.
             if r \<noteq> 0 then Inl (ParserError SeasonalPeriodNotMultiple) else Inr ())))"

text \<open>The Time Grid Resolver: lines 78 to 83 together, returning the validated offset.\<close>

definition time_grid_resolver :: "timedelta option \<Rightarrow> timedelta \<Rightarrow> error + int" where
  "time_grid_resolver seasonal_period step =
     and_then (season_offset seasonal_period step) (\<lambda>offset.
     and_then (validate seasonal_period step offset) (\<lambda>_. Inr offset))"

subsection \<open>The pairing of the seasonal options (lines 47 and 55)\<close>

text \<open>
  The seasonal order is declared with \<^verbatim>\<open>required="-m" in sys.argv or "--seasonal_period" in
  sys.argv\<close> and the help text ``required if seasonal period is provided'', the seasonal
  period with the same test of \<^verbatim>\<open>-R\<close> and \<^verbatim>\<open>--seasonal_order\<close>. When a required option
  is missing, \<^verbatim>\<open>parse_args\<close> ends the run through \<^verbatim>\<open>parser.error\<close>, before line 76. The
  tests look for an element of \<^verbatim>\<open>sys.argv\<close> that is exactly the name of the option.
\<close>

definition seasonal_order_required :: "string list \<Rightarrow> bool" where
  "seasonal_order_required argv = (''-m'' \<in> set argv \<or> ''--seasonal_period'' \<in> set argv)"

definition seasonal_period_required :: "string list \<Rightarrow> bool" where
  "seasonal_period_required argv = (''-R'' \<in> set argv \<or> ''--seasonal_order'' \<in> set argv)"

subsection \<open>The libraries the script calls\<close>

text \<open>
  The series type \<open>'s\<close>, the fitted model \<open>'m\<close>, the prediction result \<open>'p\<close> and the
  sample values \<open>'v\<close> belong to pandas and statsmodels; the script only passes them on.
  A \<open>library\<close> holds the calls the script makes: \<^verbatim>\<open>series.interpolate(method="time")\<close>,
  \<^verbatim>\<open>ARIMA(...).fit()\<close> (which may raise), \<^verbatim>\<open>fit.summary()\<close>, \<^verbatim>\<open>fit.get_prediction\<close>,
  \<^verbatim>\<open>predicted_mean\<close>, \<^verbatim>\<open>conf_int(alpha)\<close> and the text of a value in an f-string.
  \<open>ARIMA series order None\<close> is the call without a \<^verbatim>\<open>seasonal_order\<close> argument.
\<close>

datatype 's model = ARIMA 's "int list" "int list option"

record ('s, 'm, 'p, 'v) library =
  interpolate :: "'s \<Rightarrow> 's"
  fit :: "'s model \<Rightarrow> error + 'm"
  summary :: "'m \<Rightarrow> string"
  get_prediction :: "'m \<Rightarrow> timestamp \<Rightarrow> timestamp \<Rightarrow> 'p"
  predicted_mean :: "'p \<Rightarrow> (timestamp \<times> 'v) list"
  conf_int :: "'p \<Rightarrow> rat \<Rightarrow> (timestamp \<times> 'v \<times> 'v) list"
  str_value :: "'v \<Rightarrow> string"

subsection \<open>Arguments and effects\<close>

text \<open>
  The parsed arguments that lines 78 to 133 read. \<open>seasonal_order\<close> and
  \<open>seasonal_period\<close> are \<^verbatim>\<open>None\<close> when their option is absent; \<open>output_filename\<close> is the
  truth value of \<^verbatim>\<open>args.output_filename\<close>, an open file or \<^verbatim>\<open>None\<close>.
\<close>

record args =
  order :: "int list"
  seasonal_order :: "int list option"
  seasonal_period :: "timedelta option"
  forecast_period :: timedelta
  output_filename :: bool

text \<open>
  A figure (lines 107 to 127): the observed series, the prediction, the vertical line at
  \<^verbatim>\<open>end - step\<close>, and one band per level with its interval, its opacity and the mask
  \<^verbatim>\<open>index >= end\<close>. The state is what the script has printed, written to the output
  file and drawn so far, and the figures that \<^verbatim>\<open>plt.show()\<close> has displayed.
\<close>

record ('s, 'v) figure =
  observed :: 's
  prediction_line :: "(timestamp \<times> 'v) list"
  axvline :: timestamp
  bands :: "(int \<times> (timestamp \<times> 'v \<times> 'v) list \<times> rat \<times> bool list) list"
  ylabel :: string

record ('s, 'v) state =
  stdout :: "string list"
  output_file :: "string list"
  figures :: "('s, 'v) figure list"
  shown :: "('s, 'v) figure list"

definition initial :: "('s, 'v) state" where
  "initial = \<lparr>stdout = [], output_file = [], figures = [], shown = []\<rparr>"

subsection \<open>Decimal text of an integer\<close>

text \<open>The f-string of line 131 writes \<^verbatim>\<open>int(dt.timestamp())\<close> in decimal.\<close>

fun str_nat :: "nat \<Rightarrow> string" where
  "str_nat n =
     (if n < 10 then [''0123456789'' ! n]
      else str_nat (n div 10) @ [''0123456789'' ! (n mod 10)])"

declare str_nat.simps [simp del]

definition str_int :: "int \<Rightarrow> string" where
  "str_int i = (if i < 0 then CHR ''-'' # str_nat (nat (- i)) else str_nat (nat i))"

subsection \<open>The loop over the sources (lines 88 to 131)\<close>

text \<open>
  Lines 91 to 95. With a positive offset the seasonal order is
  \<^verbatim>\<open>args.seasonal_order + [season_offset]\<close>, which raises TypeError when
  \<^verbatim>\<open>args.seasonal_order\<close> is \<^verbatim>\<open>None\<close>.
\<close>

definition fitter ::
    "('s, 'm, 'p, 'v) library \<Rightarrow> args \<Rightarrow> int \<Rightarrow> 's \<Rightarrow> error + 'm" where
  "fitter lib args offset series =
     (if offset > 0
      then (case seasonal_order args of
              None \<Rightarrow> Inl TypeError
            | Some so \<Rightarrow> fit lib (ARIMA series (order args) (Some (so @ [offset]))))
      else fit lib (ARIMA series (order args) None))"

text \<open>Lines 99 to 105.\<close>

definition levels :: "int list" where
  "levels = [25, 50, 75]"

definition alpha :: "int \<Rightarrow> rat" where
  "alpha level = 1 - of_int level / 100"

definition prediction_result ::
    "('s, 'm, 'p, 'v) library \<Rightarrow> args \<Rightarrow> timestamp \<Rightarrow> timestamp \<Rightarrow> timedelta \<Rightarrow> 'm \<Rightarrow> 'p" where
  "prediction_result lib args start end' step m =
     get_prediction lib m start (end' + forecast_period args - step)"

definition prediction_conf_int ::
    "('s, 'm, 'p, 'v) library \<Rightarrow> 'p \<Rightarrow> (int \<times> (timestamp \<times> 'v \<times> 'v) list) list" where
  "prediction_conf_int lib pr = map (\<lambda>level. (level, conf_int lib pr (alpha level))) levels"

text \<open>Line 131: one row of the output file.\<close>

definition export_row ::
    "('s, 'm, 'p, 'v) library \<Rightarrow> string \<Rightarrow> timestamp \<times> 'v \<Rightarrow> string" where
  "export_row lib source = (\<lambda>(dt, value).
     source @ '','' @ str_int dt @ '','' @ str_value lib value)"

text \<open>
  The body of the loop for one source. No line of the body catches an exception: an
  error of the fit leaves the body, the loop and the script.
\<close>

definition loop_body ::
    "('s, 'm, 'p, 'v) library \<Rightarrow> args \<Rightarrow> timestamp \<Rightarrow> timestamp \<Rightarrow> timedelta \<Rightarrow> int
       \<Rightarrow> ('s, 'v) state \<Rightarrow> string \<Rightarrow> 's \<Rightarrow> error + ('s, 'v) state" where
  "loop_body lib args start end' step offset st source raw =
     (let series = interpolate lib raw in
      and_then (fitter lib args offset series) (\<lambda>m.
        let st1 = st\<lparr>stdout := stdout st @ [summary lib m]\<rparr>;
            pr = prediction_result lib args start end' step m;
            prediction = predicted_mean lib pr;
            fig = \<lparr>observed = series,
                   prediction_line = prediction,
                   axvline = end' - step,
                   bands = map (\<lambda>(level, ci).
                             (level, ci, alpha level, map (\<lambda>(t, _). end' \<le> t) ci))
                             (prediction_conf_int lib pr),
                   ylabel = source\<rparr>;
            st2 = st1\<lparr>figures := figures st1 @ [fig]\<rparr>
        in Inr (if output_filename args
                then st2\<lparr>output_file := output_file st2 @ map (export_row lib source) prediction\<rparr>
                else st2)))"

text \<open>
  The loop runs over the sources in the order of \<open>data\<close>. It returns the state reached
  and the error that ended it, if any.
\<close>

fun for_source ::
    "('s, 'm, 'p, 'v) library \<Rightarrow> args \<Rightarrow> timestamp \<Rightarrow> timestamp \<Rightarrow> timedelta \<Rightarrow> int
       \<Rightarrow> ('s, 'v) state \<Rightarrow> (string \<times> 's) list \<Rightarrow> ('s, 'v) state \<times> error option" where
  "for_source lib args start end' step offset st [] = (st, None)"
| "for_source lib args start end' step offset st ((source, raw) # rest) =
     (case loop_body lib args start end' step offset st source raw of
        Inl e \<Rightarrow> (st, Some e)
      | Inr st' \<Rightarrow> for_source lib args start end' step offset st' rest)"

subsection \<open>The script from line 78 on\<close>

text \<open>
  \<open>start\<close>, \<open>end'\<close>, \<open>step\<close> and \<open>data\<close> are what \<^verbatim>\<open>rrd_fetch\<close> returned on line 76.
  The header of line 86 is written after the validation and before the loop. Line 133,
  \<^verbatim>\<open>plt.show()\<close>, follows the loop: it is reached only when the loop has ended without
  an exception, and it displays the figures drawn.
\<close>

definition main ::
    "('s, 'm, 'p, 'v) library \<Rightarrow> args \<Rightarrow> timestamp \<Rightarrow> timestamp \<Rightarrow> timedelta
       \<Rightarrow> (string \<times> 's) list \<Rightarrow> ('s, 'v) state \<times> error option" where
  "main lib args start end' step data =
     (case time_grid_resolver (seasonal_period args) step of
        Inl e \<Rightarrow> (initial, Some e)
      | Inr offset \<Rightarrow>
          (case for_source lib args start end' step offset
                  (if output_filename args
                   then initial\<lparr>output_file := [''ds,timestamp,value'']\<rparr>
                   else initial)
                  data of
             (st, Some e) \<Rightarrow> (st, Some e)
           | (st, None) \<Rightarrow> (st\<lparr>shown := figures st\<rparr>, None)))"

subsection \<open>Notions the properties are stated with\<close>

text \<open>
  The rows that lines 130 and 131 write for one source, from its fitted model; the span
  of a time-indexed result, its first and its last timestamp; and the errors that come
  from \<^verbatim>\<open>parser.error\<close>, the configuration errors.
\<close>

definition rows_of ::
    "('s, 'm, 'p, 'v) library \<Rightarrow> args \<Rightarrow> timestamp \<Rightarrow> timestamp \<Rightarrow> timedelta \<Rightarrow> string \<Rightarrow> 'm
       \<Rightarrow> string list" where
  "rows_of lib args start end' step source m =
     map (export_row lib source)
       (predicted_mean lib (prediction_result lib args start end' step m))"


fun is_configuration_error :: "error option \<Rightarrow> bool" where
  "is_configuration_error (Some (ParserError _)) = True"
| "is_configuration_error _ = False"

subsection \<open>A stand-in for the libraries\<close>

text \<open>
  To run the script's model on concrete inputs: series are lists of integers, the
  interpolation returns its argument, the fit fails on the empty series and otherwise
  returns the series, and a prediction from \<open>a\<close> to \<open>b\<close> has the two points \<open>a\<close> and \<open>b\<close>.
  \<open>stub_args\<close> ask for a seasonal period of two hours and an output file.
\<close>

definition stub_library :: "(int list, int list, timestamp \<times> timestamp, int) library" where
  "stub_library =
     \<lparr>interpolate = (\<lambda>s. s),
      fit = (\<lambda>model. case model of ARIMA s _ _ \<Rightarrow> if s = [] then Inl FitError else Inr s),
      summary = (\<lambda>m. ''summary''),
      get_prediction = (\<lambda>m a b. (a, b)),
      predicted_mean = (\<lambda>(a, b). [(a, 0), (b, 0)]),
      conf_int = (\<lambda>(a, b) al. [(a, - 1, 1), (b, - 1, 1)]),
      str_value = str_int\<rparr>"

definition stub_args :: args where
  "stub_args =
     \<lparr>order = [1, 0, 0], seasonal_order = Some [1, 0, 1], seasonal_period = Some 7200,
      forecast_period = 3600, output_filename = True\<rparr>"

text \<open>
  \<open>plain_args\<close> are the arguments of a run without seasonal options: order (1, 0, 0), a
  forecast period of one day and an output file.
\<close>

definition plain_args :: args where
  "plain_args =
     \<lparr>order = [1, 0, 0], seasonal_order = None, seasonal_period = None,
      forecast_period = 86400, output_filename = True\<rparr>"

lemmas stub_eval =
  main_def stub_library_def stub_args_def time_grid_resolver_def season_offset_def validate_def
  floordiv_def modulo_def and_then_def loop_body_def fitter_def prediction_result_def
  prediction_conf_int_def levels_def alpha_def export_row_def str_int_def str_nat.simps
  initial_def

section \<open>Properties of the Time Grid Resolver\<close>

lemma resolver_None: "time_grid_resolver None step = Inl AttributeError"
  by (simp add: time_grid_resolver_def season_offset_def validate_def and_then_def)

lemma resolver_zero_step:
  "d \<noteq> 0 \<Longrightarrow> time_grid_resolver (Some d) 0 = Inl ZeroDivisionError"
  by (simp add: time_grid_resolver_def season_offset_def floordiv_def and_then_def)

lemma resolver_zero_period:
  "step \<noteq> 0 \<Longrightarrow> time_grid_resolver (Some 0) step = Inr 0"
  by (simp add: time_grid_resolver_def season_offset_def validate_def modulo_def and_then_def)

lemma resolver_too_short:
  "step \<noteq> 0 \<Longrightarrow> d \<noteq> 0 \<Longrightarrow> d div step < 2 \<Longrightarrow>
     time_grid_resolver (Some d) step = Inl (ParserError (SeasonalPeriodTooShort step (Some d)))"
  by (simp add: time_grid_resolver_def season_offset_def validate_def floordiv_def and_then_def)

lemma resolver_not_multiple:
  "step \<noteq> 0 \<Longrightarrow> 2 \<le> d div step \<Longrightarrow> d mod step \<noteq> 0 \<Longrightarrow>
     time_grid_resolver (Some d) step = Inl (ParserError SeasonalPeriodNotMultiple)"
  by (auto simp add: time_grid_resolver_def season_offset_def validate_def floordiv_def
        modulo_def and_then_def)

lemma resolver_accepts:
  "step \<noteq> 0 \<Longrightarrow> 2 \<le> d div step \<Longrightarrow> d mod step = 0 \<Longrightarrow>
     time_grid_resolver (Some d) step = Inr (d div step)"
  by (auto simp add: time_grid_resolver_def season_offset_def validate_def floordiv_def
        modulo_def and_then_def)

lemma resolver_result:
  assumes "time_grid_resolver sp step = Inr offset"
  shows "\<exists>d. sp = Some d \<and> step \<noteq> 0 \<and> d mod step = 0 \<and> offset = d div step
              \<and> (d = 0 \<or> 2 \<le> offset)"
proof (cases sp)
  case None
  with assms show ?thesis by (simp add: resolver_None)
next
  case (Some d)
  with assms show ?thesis
    by (auto simp add: time_grid_resolver_def season_offset_def validate_def floordiv_def
          modulo_def and_then_def split: if_splits)
qed

text \<open>
  C1. With no seasonal period, line 78 sets the offset to 0, and the \<^verbatim>\<open>elif\<close> of line 82
  then reads \<^verbatim>\<open>total_seconds\<close> of \<^verbatim>\<open>None\<close>: the resolver raises AttributeError, here at a
  step of one hour, instead of returning 0.
\<close>

theorem resolver_without_period_raises:
  "season_offset None 3600 = Inr 0 \<and> time_grid_resolver None 3600 = Inl AttributeError"
  by (simp add: time_grid_resolver_def season_offset_def validate_def and_then_def)

text \<open>
  C3. A seasonal period of zero length is supplied, its floor quotient by the step is
  0 < 2, and the resolver accepts it with offset 0: the truth value of the zero
  \<^verbatim>\<open>timedelta\<close> is false, so neither line 78 nor the test of line 80 sees the period.
\<close>

theorem resolver_zero_period_accepted:
  "(0::int) div 3600 < 2 \<and> time_grid_resolver (Some 0) 3600 = Inr 0"
  by (simp add: time_grid_resolver_def season_offset_def validate_def modulo_def and_then_def)

text \<open>
  C9. When a seasonal period is supplied whose floor quotient by the step is below 2 and
  which is not a multiple of the step, the error reported is the one of line 81, too
  short. The not-a-multiple error of line 83 is reported exactly when the floor quotient
  is at least 2 and the remainder is not zero: the test of line 82 decides only where the
  test of line 80 did not fire. The step is not zero, as a division by zero raises first.
\<close>

theorem too_short_reported_first:
  assumes "step \<noteq> 0"
  shows "(d div step < 2 \<and> d mod step \<noteq> 0 \<longrightarrow>
            time_grid_resolver (Some d) step
              = Inl (ParserError (SeasonalPeriodTooShort step (Some d))))
       \<and> (time_grid_resolver (Some d) step = Inl (ParserError SeasonalPeriodNotMultiple)
            \<longleftrightarrow> 2 \<le> d div step \<and> d mod step \<noteq> 0)"
proof (intro conjI impI)
  assume "d div step < 2 \<and> d mod step \<noteq> 0"
  then have "d div step < 2" and "d \<noteq> 0" by auto
  with assms show "time_grid_resolver (Some d) step
           = Inl (ParserError (SeasonalPeriodTooShort step (Some d)))"
    by (simp add: resolver_too_short)
next
  show "time_grid_resolver (Some d) step = Inl (ParserError SeasonalPeriodNotMultiple)
          \<longleftrightarrow> 2 \<le> d div step \<and> d mod step \<noteq> 0"
  proof (cases "d = 0")
    case True
    with assms show ?thesis by (simp add: resolver_zero_period)
  next
    case nz: False
    show ?thesis
    proof (cases "d div step < 2")
      case True
      with assms nz show ?thesis by (simp add: resolver_too_short)
    next
      case False
      then have ge: "2 \<le> d div step" by simp
      show ?thesis
      proof (cases "d mod step = 0")
        case True
        with assms ge show ?thesis by (simp add: resolver_accepts)
      next
        case False
        with assms ge show ?thesis by (simp add: resolver_not_multiple)
      qed
    qed
  qed
qed

text \<open>
  The theorem at a period of an hour and a half and a step of one hour: the quotient is
  1 and the remainder half an hour.
\<close>

theorem too_short_reported_first_witness:
  "(3600::int) \<noteq> 0 \<and> (5400::int) div 3600 < 2 \<and> (5400::int) mod 3600 \<noteq> 0
   \<and> time_grid_resolver (Some 5400) 3600
       = Inl (ParserError (SeasonalPeriodTooShort 3600 (Some 5400)))"
  using too_short_reported_first [of 3600 5400] by simp

text \<open>
  C10. A seasonal period of zero length with a seasonal order: the validation succeeds
  with offset 0 although a seasonal period was supplied, and with offset 0 the fitter
  takes the non-seasonal branch of line 94, whatever the series and the library.
\<close>

theorem zero_period_selects_non_seasonal:
  "time_grid_resolver (seasonal_period (stub_args\<lparr>seasonal_period := Some 0\<rparr>)) 3600 = Inr 0
   \<and> fitter lib (stub_args\<lparr>seasonal_period := Some 0\<rparr>) 0 series
       = fit lib (ARIMA series [1, 0, 0] None)"
  by (simp add: stub_args_def time_grid_resolver_def season_offset_def validate_def modulo_def
        and_then_def fitter_def)

section \<open>Properties of the Forecast Fitter\<close>

text \<open>
  C4. Whenever the seasonal order is present where the offset is positive, the fitter
  fits \<^verbatim>\<open>ARIMA(series, order, seasonal_order + [season_offset])\<close> if the offset is positive
  and \<^verbatim>\<open>ARIMA(series, order)\<close> otherwise: the seasonal model exactly when
  \<open>season_offset > 0\<close>.
\<close>

theorem fitter_branches:
  assumes "0 < offset \<longrightarrow> seasonal_order args = Some base"
  shows "fitter lib args offset series =
           fit lib (ARIMA series (order args)
                      (if 0 < offset then Some (base @ [offset]) else None))"
  using assms by (simp add: fitter_def)

text \<open>
  The theorem on the stand-in library, at offset 2 (seasonal, with the 4-tuple
  \<open>[1, 0, 1, 2]\<close>) and at offset 0 (non-seasonal).
\<close>

theorem fitter_branches_witness:
  "seasonal_order stub_args = Some [1, 0, 1]
   \<and> fitter stub_library stub_args 2 [5]
       = fit stub_library (ARIMA [5] [1, 0, 0] (Some [1, 0, 1, 2]))
   \<and> fitter stub_library stub_args 0 [5] = fit stub_library (ARIMA [5] [1, 0, 0] None)"
proof -
  have s: "seasonal_order stub_args = Some [1, 0, 1]" by (simp add: stub_args_def)
  from fitter_branches [of 2 stub_args "[1, 0, 1]" stub_library "[5]"]
       fitter_branches [of 0 stub_args "[1, 0, 1]" stub_library "[5]"] s
  show ?thesis by (simp add: stub_args_def)
qed

section \<open>Properties of the Interval Assembler\<close>




section \<open>Properties of the loop over the sources\<close>

lemma loop_body_fit_error:
  "fitter lib args offset (interpolate lib raw) = Inl e \<Longrightarrow>
     loop_body lib args start end' step offset st source raw = Inl e"
  by (simp add: loop_body_def and_then_def)

lemma loop_body_fit_ok:
  assumes "fitter lib args offset (interpolate lib raw) = Inr m"
  shows "\<exists>st'. loop_body lib args start end' step offset st source raw = Inr st'
           \<and> output_file st' =
               (if output_filename args
                then output_file st @ rows_of lib args start end' step source m
                else output_file st)"
  using assms by (simp add: loop_body_def and_then_def Let_def rows_of_def)

lemma loop_body_shown:
  "loop_body lib args start end' step offset st source raw = Inr st' \<Longrightarrow> shown st' = shown st"
  by (cases "fitter lib args offset (interpolate lib raw)")
     (auto simp add: loop_body_def and_then_def Let_def split: if_splits)

lemma for_source_shown:
  "shown (fst (for_source lib args start end' step offset st data)) = shown st"
proof (induction data arbitrary: st)
  case Nil
  show ?case by simp
next
  case (Cons x data)
  obtain source raw where x: "x = (source, raw)" by (cases x)
  show ?case
  proof (cases "loop_body lib args start end' step offset st source raw")
    case (Inl e)
    with x show ?thesis by simp
  next
    case (Inr st')
    with x Cons.IH [of st'] loop_body_shown [OF Inr] show ?thesis by simp
  qed
qed

lemma for_source_append:
  "for_source lib args start end' step offset st (xs @ ys) =
     (case for_source lib args start end' step offset st xs of
        (st', None) \<Rightarrow> for_source lib args start end' step offset st' ys
      | (st', Some e) \<Rightarrow> (st', Some e))"
proof (induction xs arbitrary: st)
  case Nil
  show ?case by simp
next
  case (Cons x xs)
  obtain source raw where x: "x = (source, raw)" by (cases x)
  show ?case
  proof (cases "loop_body lib args start end' step offset st source raw")
    case (Inl e)
    with x show ?thesis by simp
  next
    case (Inr st')
    with x Cons.IH [of st'] show ?thesis by simp
  qed
qed

lemma for_source_all_fit:
  assumes "\<forall>(source, raw) \<in> set data.
             fitter lib args offset (interpolate lib raw) = Inr (fitted raw)"
  shows "snd (for_source lib args start end' step offset st data) = None
       \<and> output_file (fst (for_source lib args start end' step offset st data)) =
           (if output_filename args
            then output_file st
                   @ concat (map (\<lambda>(source, raw).
                               rows_of lib args start end' step source (fitted raw)) data)
            else output_file st)"
  using assms
proof (induction data arbitrary: st)
  case Nil
  show ?case by simp
next
  case (Cons x data)
  obtain source raw where x: "x = (source, raw)" by (cases x)
  from Cons.prems x have f: "fitter lib args offset (interpolate lib raw) = Inr (fitted raw)"
    by simp
  from loop_body_fit_ok [OF f] obtain st' where
    b: "loop_body lib args start end' step offset st source raw = Inr st'"
    and o: "output_file st' =
               (if output_filename args
                then output_file st @ rows_of lib args start end' step source (fitted raw)
                else output_file st)"
    by blast
  from Cons.prems have rest: "\<forall>(source, raw) \<in> set data.
      fitter lib args offset (interpolate lib raw) = Inr (fitted raw)" by simp
  from Cons.IH [OF rest, of st'] b o x show ?case by simp
qed

text \<open>
  C2, as the script behaves. When the configuration has passed the validation, the
  sources before some source all fit and the fit of that source raises \<open>e\<close>, the run
  ends there with \<open>e\<close>, and the sources after it are not processed, whatever they are.
  What the run has printed, written to the output file and drawn is what the run over
  the sources before it alone prints, writes and draws; but that run displays its
  figures, and the run that ends with \<open>e\<close> displays none: line 133 is not reached.
\<close>

theorem fit_error_aborts_batch:
  assumes "time_grid_resolver (seasonal_period args) step = Inr offset"
      and "\<forall>(s, r) \<in> set before. fitter lib args offset (interpolate lib r) = Inr (fitted r)"
      and "fitter lib args offset (interpolate lib raw) = Inl e"
  shows "main lib args start end' step (before @ (source, raw) # after)
           = ((fst (main lib args start end' step before))\<lparr>shown := []\<rparr>, Some e)
       \<and> snd (main lib args start end' step before) = None
       \<and> shown (fst (main lib args start end' step before))
           = figures (fst (main lib args start end' step before))"
proof -
  define st0 :: "('a, 'd) state" where
    "st0 = (if output_filename args
            then initial\<lparr>output_file := [''ds,timestamp,value'']\<rparr> else initial)"
  obtain st' where p: "for_source lib args start end' step offset st0 before = (st', None)"
    using for_source_all_fit [OF assms(2), where st = st0 and start = start and end' = end'
        and step = step]
    by (cases "for_source lib args start end' step offset st0 before") simp
  have "shown st0 = []" by (simp add: st0_def initial_def)
  with for_source_shown [of lib args start end' step offset st0 before] p
  have s: "shown st' = []" by simp
  have q: "st'\<lparr>shown := []\<rparr> = st'" using s by (cases st') simp
  have "for_source lib args start end' step offset st0 (before @ (source, raw) # after)
          = (st', Some e)"
    by (simp add: for_source_append p loop_body_fit_error [OF assms(3)])
  with p q assms(1) show ?thesis by (simp add: main_def st0_def)
qed

text \<open>
  The theorem on the stand-in library: of the sources b, a, c the second does not fit,
  and the run ends with what the run over b alone has printed, written and drawn, and
  with no figure displayed.
\<close>

theorem fit_error_aborts_batch_witness:
  "time_grid_resolver (seasonal_period stub_args) 3600 = Inr 2
   \<and> fitter stub_library stub_args 2 (interpolate stub_library []) = Inl FitError
   \<and> main stub_library stub_args 0 7200 3600 [(''b'', [1]), (''a'', []), (''c'', [2])]
       = ((fst (main stub_library stub_args 0 7200 3600 [(''b'', [1])]))\<lparr>shown := []\<rparr>,
          Some FitError)
   \<and> length (shown (fst (main stub_library stub_args 0 7200 3600 [(''b'', [1])]))) = 1"
proof -
  have r: "time_grid_resolver (seasonal_period stub_args) 3600 = Inr 2"
    by (simp add: stub_eval)
  have b: "\<forall>(s, r) \<in> set [(''b'', [1])].
             fitter stub_library stub_args 2 (interpolate stub_library r) = Inr ((\<lambda>x. x) r)"
    by (simp add: stub_eval)
  have f: "fitter stub_library stub_args 2 (interpolate stub_library []) = Inl FitError"
    by (simp add: stub_eval)
  have l: "length (shown (fst (main stub_library stub_args 0 7200 3600 [(''b'', [1])]))) = 1"
    by (simp add: stub_eval)
  from fit_error_aborts_batch [OF r b f, of 0 7200 "''a''" "[(''c'', [2])]"] r f l
  show ?thesis by (simp del: for_source.simps)
qed

text \<open>
  C2, as stated, fails. In the batch of the two sources a and b, the fit of a raises and b
  fits (alone, b gives the header and two rows); the run ends with the error of a, and
  the output file holds the header only: b, which would fit, is never processed.
\<close>

theorem fit_error_skips_later_series:
  "fitter stub_library stub_args 2 (interpolate stub_library [1]) = Inr [1]
   \<and> output_file (fst (main stub_library stub_args 0 7200 3600 [(''b'', [1])]))
       = [''ds,timestamp,value'', ''b,0,0'', ''b,7200,0'']
   \<and> main stub_library stub_args 0 7200 3600 [(''a'', []), (''b'', [1])]
       = (\<lparr>stdout = [], output_file = [''ds,timestamp,value''], figures = [], shown = []\<rparr>,
          Some FitError)"
  by (simp add: stub_eval)

section \<open>Properties of the export\<close>

text \<open>
  When an output file is requested, the configuration has passed the validation (so a
  seasonal period was supplied) and every series of the batch fits, the run ends without
  error and the output file is the header \<^verbatim>\<open>ds,timestamp,value\<close> followed, source after
  source in the order of the batch, by one row \<^verbatim>\<open>source,timestamp,value\<close> for each point
  of the source's point forecast, in the order of the forecast, with the timestamp as a
  decimal integer.
\<close>

lemma export_file_contents:
  assumes "output_filename args"
      and "time_grid_resolver (seasonal_period args) step = Inr offset"
      and "\<forall>(source, raw) \<in> set data.
             fitter lib args offset (interpolate lib raw) = Inr (fitted raw)"
  shows "snd (main lib args start end' step data) = None
       \<and> output_file (fst (main lib args start end' step data)) =
           ''ds,timestamp,value'' #
           concat (map (\<lambda>(source, raw).
                     map (\<lambda>(dt, value).
                            source @ '','' @ str_int dt @ '','' @ str_value lib value)
                       (predicted_mean lib
                          (get_prediction lib (fitted raw) start
                             (end' + forecast_period args - step))))
                   data)"
proof -
  have r: "(\<lambda>(source, raw). rows_of lib args start end' step source (fitted raw)) =
        (\<lambda>(source, raw).
           map (\<lambda>(dt, value). source @ '','' @ str_int dt @ '','' @ str_value lib value)
             (predicted_mean lib
                (get_prediction lib (fitted raw) start (end' + forecast_period args - step))))"
    by (simp add: rows_of_def export_row_def prediction_result_def fun_eq_iff)
  define st0 :: "('a, 'd) state" where
    "st0 = initial\<lparr>output_file := [''ds,timestamp,value'']\<rparr>"
  from for_source_all_fit [OF assms(3), where st = st0
      and start = start and end' = end' and step = step]
  obtain st' where p: "for_source lib args start end' step offset st0 data = (st', None)"
    and o: "output_file st' =
              (if output_filename args
               then output_file st0
                      @ concat (map (\<lambda>(source, raw).
                                  rows_of lib args start end' step source (fitted raw)) data)
               else output_file st0)"
    by (cases "for_source lib args start end' step offset st0 data") simp
  from p o assms(1,2) show ?thesis by (simp add: main_def r st0_def)
qed

text \<open>
  C8. The run of the spec's own scenario: from 2024-01-01 to 2024-01-31 at a step of one
  hour, order (1, 0, 0), no seasonal option, a forecast period of one day, an output file
  and one source. Line 78 gives the offset 0 and at that offset the source fits, but the
  run ends on line 82 with AttributeError, before line 86: the output file is empty, it
  does not even hold the header.
\<close>

theorem export_without_period_is_empty:
  "season_offset (seasonal_period plain_args) 3600 = Inr 0
   \<and> fitter stub_library plain_args 0 (interpolate stub_library [1]) = Inr [1]
   \<and> main stub_library plain_args 1704067200 1706659200 3600 [(''a'', [1])]
       = (\<lparr>stdout = [], output_file = [], figures = [], shown = []\<rparr>, Some AttributeError)"
  by (simp add: stub_eval plain_args_def)

section \<open>A seasonal period without a seasonal order\<close>

text \<open>
  Lines 78 to 133 never test whether the seasonal order is present. With a seasonal
  period that is not of zero length and passes the validation, and no seasonal order, the
  offset is at least 2 and the first source ends the run with the TypeError of
  \<^verbatim>\<open>None + [season_offset]\<close> on line 92, whatever the library, after the header of
  line 86 has been written.
\<close>

lemma unpaired_period_type_error:
  assumes "seasonal_period args = Some d" and "d \<noteq> 0" and "seasonal_order args = None"
      and "time_grid_resolver (Some d) step = Inr offset"
  shows "main lib args start end' step ((source, raw) # rest) =
           (if output_filename args
            then initial\<lparr>output_file := [''ds,timestamp,value'']\<rparr>
            else initial,
            Some TypeError)"
proof -
  from resolver_result [OF assms(4)] assms(2) have "2 \<le> offset" by auto
  then have "fitter lib args offset (interpolate lib raw) = Inl TypeError"
    using assms(3) by (simp add: fitter_def)
  then have "loop_body lib args start end' step offset st source raw = Inl TypeError" for st
    by (rule loop_body_fit_error)
  with assms(1,4) show ?thesis by (simp add: main_def)
qed

text \<open>
  C7. The script means to reject a seasonal period without a seasonal order through the
  parser: with \<^verbatim>\<open>-m 2h\<close> on the command line the seasonal order is required. Written
  \<^verbatim>\<open>--seasonal_period=2h\<close>, the same option is no element of \<^verbatim>\<open>sys.argv\<close> that the test
  of line 47 looks for: the seasonal order is not required, and the arguments reach
  line 78 with a period of two hours and no seasonal order. At a step of one hour the
  validation passes, and the run over one source ends with TypeError on line 92, after
  the header was written: no configuration error. The run over no source ends without
  any error.
\<close>

theorem unpaired_period_not_configuration_error:
  "seasonal_order_required
     [''arima.py'', ''data.rrd'', ''-r'', ''1'', ''0'', ''0'', ''-m'', ''2h'']
   \<and> \<not> seasonal_order_required
         [''arima.py'', ''data.rrd'', ''-r'', ''1'', ''0'', ''0'', ''--seasonal_period=2h'']
   \<and> seasonal_period (stub_args\<lparr>seasonal_order := None\<rparr>) = Some 7200
   \<and> seasonal_order (stub_args\<lparr>seasonal_order := None\<rparr>) = None
   \<and> main stub_library (stub_args\<lparr>seasonal_order := None\<rparr>) 0 7200 3600 [(''a'', [1])]
       = (\<lparr>stdout = [], output_file = [''ds,timestamp,value''], figures = [], shown = []\<rparr>,
          Some TypeError)
   \<and> \<not> is_configuration_error
         (snd (main stub_library (stub_args\<lparr>seasonal_order := None\<rparr>) 0 7200 3600
                 [(''a'', [1])]))
   \<and> snd (main stub_library (stub_args\<lparr>seasonal_order := None\<rparr>) 0 7200 3600 []) = None"
  by (simp add: stub_eval seasonal_order_required_def)

end
